theory Spec2Isabelle
  imports Complex_Main
begin

section \<open>Characters and strings of the Python source\<close>

text \<open>
  The service works on Python \<open>str\<close> values. A text is modelled as a \<open>string\<close> whose
  characters are the code points below 256 (Latin-1); \<open>length\<close> counts code points as
  Python's \<open>len\<close> does. The character tables below are the ones of Python 3 on that range.
  Confidence scores are Python floats; they are modelled as exact reals.
\<close>

definition ord :: "char \<Rightarrow> nat" where
  "ord c = of_char c"

definition chr :: "nat \<Rightarrow> char" where
  "chr n = char_of n"

text \<open>\<open>str.isspace\<close> for one character; the same set is used by \<open>str.strip\<close>,
  \<open>str.split\<close> and the regular expression class \<open>\s\<close>.\<close>

definition isspace :: "char \<Rightarrow> bool" where
  "isspace c = (let n = ord c in
     (9 \<le> n \<and> n \<le> 13) \<or> (28 \<le> n \<and> n \<le> 32) \<or> n = 133 \<or> n = 160)"

text \<open>\<open>str.isdigit\<close> for one character: the ASCII digits and the superscripts
  two, three and one.\<close>

definition isdigit :: "char \<Rightarrow> bool" where
  "isdigit c = (let n = ord c in
     (48 \<le> n \<and> n \<le> 57) \<or> n = 178 \<or> n = 179 \<or> n = 185)"

definition isupper :: "char \<Rightarrow> bool" where
  "isupper c = (let n = ord c in
     (65 \<le> n \<and> n \<le> 90) \<or> (192 \<le> n \<and> n \<le> 214) \<or> (216 \<le> n \<and> n \<le> 222))"

text \<open>\<open>str.lower\<close> on one character.\<close>

definition lower_char :: "char \<Rightarrow> char" where
  "lower_char c = (if isupper c then chr (ord c + 32) else c)"

definition lower :: "string \<Rightarrow> string" where
  "lower s = map lower_char s"

text \<open>Simple upper-casing as the regular expression engine uses it for ranges; the two
  letters whose capital lies beyond code point 255 are left as they are.\<close>

definition upper_char :: "char \<Rightarrow> char" where
  "upper_char c = (let n = ord c in
     if (97 \<le> n \<and> n \<le> 122) \<or> (224 \<le> n \<and> n \<le> 246) \<or> (248 \<le> n \<and> n \<le> 254)
     then chr (n - 32) else c)"

text \<open>\<open>str.strip()\<close>: white space removed at both ends.\<close>

definition strip :: "string \<Rightarrow> string" where
  "strip s = rev (dropWhile isspace (rev (dropWhile isspace s)))"

text \<open>\<open>str.split()\<close>: the maximal runs of characters that are not white space.
  \<open>cur\<close> is the token read so far.\<close>

fun split_from :: "string \<Rightarrow> string \<Rightarrow> string list" where
  "split_from cur [] = (if cur = [] then [] else [cur])"
| "split_from cur (c # cs) =
     (if isspace c then (if cur = [] then split_from [] cs else cur # split_from [] cs)
      else split_from (cur @ [c]) cs)"

definition split :: "string \<Rightarrow> string list" where
  "split s = split_from [] s"

text \<open>\<open>w in s\<close> for strings: \<open>w\<close> occurs as a contiguous piece of \<open>s\<close>.\<close>

fun starts_with :: "string \<Rightarrow> string \<Rightarrow> bool" where
  "starts_with [] s = True"
| "starts_with (a # w) [] = False"
| "starts_with (a # w) (c # s) = (a = c \<and> starts_with w s)"

fun contains :: "string \<Rightarrow> string \<Rightarrow> bool" where
  "contains w [] = (w = [])"
| "contains w (c # s) = (starts_with w (c # s) \<or> contains w s)"

text \<open>\<open>str.zfill(width)\<close>: zeros on the left up to the width, after a leading sign.\<close>

definition zfill :: "nat \<Rightarrow> string \<Rightarrow> string" where
  "zfill width s =
     (if width \<le> length s then s
      else (case s of
              c # cs \<Rightarrow>
                if c = CHR ''+'' \<or> c = CHR ''-''
                then c # replicate (width - length s) CHR ''0'' @ cs
                else replicate (width - length s) CHR ''0'' @ s
            | [] \<Rightarrow> replicate width CHR ''0''))"

section \<open>Regular expressions as Python's \<open>re\<close> matches them\<close>

text \<open>
  The patterns of the service use literals, character sets, repetition of one character
  (greedy or lazy), an optional group, capture groups, alternation and the word boundary.
  They are always used with \<open>re.IGNORECASE\<close>, so membership in a set ignores case
  the way the engine does: a literal is compared after lower-casing, a range is tried on
  the lower-cased character and on its capital.
\<close>

datatype cset = Chr char | Rng char char | Space | Digit

fun in_cset :: "char \<Rightarrow> cset \<Rightarrow> bool" where
  "in_cset x (Chr c) = (lower_char x = lower_char c)"
| "in_cset x (Rng a b) =
     (let l = lower_char x; u = upper_char l
      in (ord a \<le> ord l \<and> ord l \<le> ord b) \<or> (ord a \<le> ord u \<and> ord u \<le> ord b))"
| "in_cset x Space = isspace x"
| "in_cset x Digit = (48 \<le> ord x \<and> ord x \<le> 57)"

definition in_class :: "cset list \<Rightarrow> char \<Rightarrow> bool" where
  "in_class cs x = list_ex (in_cset x) cs"

text \<open>The class \<open>\w\<close>, which decides where \<open>\b\<close> holds.\<close>

definition isword :: "char \<Rightarrow> bool" where
  "isword c = (let n = ord c in
     (48 \<le> n \<and> n \<le> 57) \<or> (65 \<le> n \<and> n \<le> 90) \<or> n = 95 \<or> (97 \<le> n \<and> n \<le> 122)
     \<or> n = 170 \<or> n = 178 \<or> n = 179 \<or> n = 181 \<or> n = 185 \<or> n = 186
     \<or> (188 \<le> n \<and> n \<le> 190) \<or> (192 \<le> n \<and> n \<le> 214) \<or> (216 \<le> n \<and> n \<le> 246)
     \<or> (248 \<le> n \<and> n \<le> 255))"

definition at_boundary :: "char option \<Rightarrow> string \<Rightarrow> bool" where
  "at_boundary p s =
     ((case p of None \<Rightarrow> False | Some c \<Rightarrow> isword c)
      \<noteq> (case s of [] \<Rightarrow> False | c # _ \<Rightarrow> isword c))"

datatype regex =
    Eps
  | One "cset list"
  | Greedy nat "nat option" "cset list"
  | Lazy nat "nat option" "cset list"
  | Opt regex
  | Grp nat regex
  | Alt regex regex
  | Cat regex regex
  | WordB

text \<open>
  The engine backtracks. A matcher takes the continuation \<open>k\<close> that matches the rest of
  the pattern, the character before the current position (for \<open>\b\<close>), the text from the
  current position on and the groups captured so far; \<open>None\<close> is failure, which makes
  the caller try its next alternative.
\<close>

type_synonym caps = "nat \<Rightarrow> string option"

type_synonym 'r cont = "char option \<Rightarrow> string \<Rightarrow> caps \<Rightarrow> 'r option"

definition dec :: "nat option \<Rightarrow> nat option" where
  "dec hi = map_option (\<lambda>h. h - 1) hi"

text \<open>\<open>X{lo,hi}\<close> on one character, greedy: the longest run first, then shorter ones.\<close>

fun greedy :: "cset list \<Rightarrow> nat \<Rightarrow> nat option \<Rightarrow> 'r cont \<Rightarrow> 'r cont" where
  "greedy cs lo hi k p [] g = (if lo = 0 then k p [] g else None)"
| "greedy cs lo hi k p (x # xs) g =
     (if hi \<noteq> Some 0 \<and> in_class cs x
      then (case greedy cs (lo - 1) (dec hi) k (Some x) xs g of
              Some r \<Rightarrow> Some r
            | None \<Rightarrow> if lo = 0 then k p (x # xs) g else None)
      else if lo = 0 then k p (x # xs) g else None)"

text \<open>\<open>X{lo,hi}?\<close> on one character, lazy: the shortest run first, then longer ones.\<close>

fun lazy :: "cset list \<Rightarrow> nat \<Rightarrow> nat option \<Rightarrow> 'r cont \<Rightarrow> 'r cont" where
  "lazy cs lo hi k p [] g = (if lo = 0 then k p [] g else None)"
| "lazy cs lo hi k p (x # xs) g =
     (if lo = 0
      then (case k p (x # xs) g of
              Some r \<Rightarrow> Some r
            | None \<Rightarrow> if hi \<noteq> Some 0 \<and> in_class cs x
                      then lazy cs 0 (dec hi) k (Some x) xs g else None)
      else if hi \<noteq> Some 0 \<and> in_class cs x
           then lazy cs (lo - 1) (dec hi) k (Some x) xs g else None)"

fun rmatch :: "regex \<Rightarrow> 'r cont \<Rightarrow> 'r cont" where
  "rmatch Eps k p s g = k p s g"
| "rmatch (One cs) k p s g =
     (case s of [] \<Rightarrow> None | x # xs \<Rightarrow> if in_class cs x then k (Some x) xs g else None)"
| "rmatch (Greedy lo hi cs) k p s g = greedy cs lo hi k p s g"
| "rmatch (Lazy lo hi cs) k p s g = lazy cs lo hi k p s g"
| "rmatch (Opt r) k p s g =
     (case rmatch r k p s g of Some res \<Rightarrow> Some res | None \<Rightarrow> k p s g)"
| "rmatch (Grp n r) k p s g =
     rmatch r (\<lambda>p' s' g'. k p' s' (g'(n \<mapsto> take (length s - length s') s))) p s g"
| "rmatch (Alt a b) k p s g =
     (case rmatch a k p s g of Some res \<Rightarrow> Some res | None \<Rightarrow> rmatch b k p s g)"
| "rmatch (Cat a b) k p s g = rmatch a (\<lambda>p' s' g'. rmatch b k p' s' g') p s g"
| "rmatch WordB k p s g = (if at_boundary p s then k p s g else None)"

text \<open>A match at the current position: the groups, the last character matched and the
  text left after the match.\<close>

definition match_at :: "regex \<Rightarrow> char option \<Rightarrow> string \<Rightarrow> (caps \<times> char option \<times> string) option" where
  "match_at r p s = rmatch r (\<lambda>p' s' g'. Some (g', p', s')) p s (\<lambda>_. None)"

text \<open>\<open>re.search\<close>: the match at the leftmost position that has one; the result is the
  groups of the match object.\<close>

fun search_from :: "regex \<Rightarrow> char option \<Rightarrow> string \<Rightarrow> caps option" where
  "search_from r p [] = map_option fst (match_at r p [])"
| "search_from r p (x # xs) =
     (case match_at r p (x # xs) of
        Some m \<Rightarrow> Some (fst m)
      | None \<Rightarrow> search_from r (Some x) xs)"

definition search :: "regex \<Rightarrow> string \<Rightarrow> caps option" where
  "search r text = search_from r None text"

text \<open>\<open>re.findall\<close> for a pattern with one group: group 1 of every match, from left to
  right, each search starting where the last match ended. A group that took no part gives
  the empty string. After an empty match the scan moves one character on; the patterns of
  the service start with a literal and never match the empty string.\<close>

function findall_from :: "regex \<Rightarrow> char option \<Rightarrow> string \<Rightarrow> string list" where
  "findall_from r p s =
     (case match_at r p s of
        Some (g, p', s') \<Rightarrow>
          (case g 1 of None \<Rightarrow> [] | Some v \<Rightarrow> v)
          # (if length s' < length s then findall_from r p' s'
             else (case s of [] \<Rightarrow> [] | x # xs \<Rightarrow> findall_from r (Some x) xs))
      | None \<Rightarrow> (case s of [] \<Rightarrow> [] | x # xs \<Rightarrow> findall_from r (Some x) xs))"
  by pat_completeness auto
termination
  by (relation "measure (\<lambda>(r, p, s). length s)") auto

definition findall :: "regex \<Rightarrow> string \<Rightarrow> string list" where
  "findall r text = findall_from r None text"

subsection \<open>Writing patterns\<close>

fun cat :: "regex list \<Rightarrow> regex" where
  "cat [] = Eps"
| "cat [r] = r"
| "cat (r # rs) = Cat r (cat rs)"

fun alts :: "regex list \<Rightarrow> regex" where
  "alts [] = Eps"
| "alts [r] = r"
| "alts (r # rs) = Alt r (alts rs)"

definition lit :: "string \<Rightarrow> regex" where
  "lit s = cat (map (\<lambda>c. One [Chr c]) s)"

definition star :: "cset list \<Rightarrow> regex" where
  "star cs = Greedy 0 None cs"

definition plus :: "cset list \<Rightarrow> regex" where
  "plus cs = Greedy 1 None cs"

definition maybe :: "cset list \<Rightarrow> regex" where
  "maybe cs = Greedy 0 (Some 1) cs"

section \<open>The field extractor\<close>

text \<open>A field of the result: the dictionary with the keys \<open>value\<close> and
  \<open>confidence\<close>.\<close>

record field_value =
  val :: string
  confidence :: real

definition empty_field :: field_value where
  "empty_field = \<lparr>val = [], confidence = 0.0\<rparr>"

text \<open>The dictionary returned by \<open>_extract_fields_from_text\<close>.\<close>

record fields =
  license_number :: field_value
  name_spouse1 :: field_value
  name_spouse2 :: field_value
  marriage_date :: field_value

text \<open>Calling a string method on \<open>None\<close> raises \<open>AttributeError\<close>.\<close>

datatype exn = AttributeError

subsection \<open>The patterns\<close>

definition alnum_dash :: "cset list" where
  "alnum_dash = [Rng CHR ''a'' CHR ''z'', Rng CHR ''0'' CHR ''9'', Chr CHR ''-'']"

definition letters :: "cset list" where
  "letters = [Rng CHR ''A'' CHR ''Z'', Rng CHR ''a'' CHR ''z'']"

definition letters_space :: "cset list" where
  "letters_space = [Rng CHR ''A'' CHR ''Z'', Rng CHR ''a'' CHR ''z'', Space]"

definition date_sep :: "cset list" where
  "date_sep = [Chr CHR ''-'', Chr CHR ''/'', Chr CHR ''.'']"

text \<open>
  \<^verbatim>\<open>application\s*no\.?\s*([a-z0-9\-]+)\<close>,
  \<^verbatim>\<open>license\s*(?:no\.|number)\s*[:#]?\s*([a-z0-9\-]+)\<close> and
  \<^verbatim>\<open>no\.?\s*([0-9]+)\<close>.
\<close>

definition license_patterns :: "regex list" where
  "license_patterns =
     [cat [lit ''application'', star [Space], lit ''no'', maybe [Chr CHR ''.''], star [Space],
           Grp 1 (plus alnum_dash)],
      cat [lit ''license'', star [Space], Alt (lit ''no.'') (lit ''number''), star [Space],
           maybe [Chr CHR '':'', Chr CHR ''#''], star [Space], Grp 1 (plus alnum_dash)],
      cat [lit ''no'', maybe [Chr CHR ''.''], star [Space],
           Grp 1 (plus [Rng CHR ''0'' CHR ''9''])]]"

text \<open>
  \<^verbatim>\<open>I[, ]+([A-Za-z\s]+?)(?:,|\sof|\sdesir|\sdo\b)\<close>,
  \<^verbatim>\<open>Miss\s+([A-Za-z\s]+?)(?:,|\sof|\sdo\b)\<close> and
  \<^verbatim>\<open>Mr\.?\s+([A-Za-z\s]+?)(?:,|\sof|\sdo\b)\<close>.
\<close>

definition name_patterns :: "regex list" where
  "name_patterns =
     [cat [lit ''I'', plus [Chr CHR '','', Chr CHR '' ''], Grp 1 (Lazy 1 None letters_space),
           alts [lit '','', cat [One [Space], lit ''of''], cat [One [Space], lit ''desir''],
                 cat [One [Space], lit ''do'', WordB]]],
      cat [lit ''Miss'', plus [Space], Grp 1 (Lazy 1 None letters_space),
           alts [lit '','', cat [One [Space], lit ''of''], cat [One [Space], lit ''do'', WordB]]],
      cat [lit ''Mr'', maybe [Chr CHR ''.''], plus [Space], Grp 1 (Lazy 1 None letters_space),
           alts [lit '','', cat [One [Space], lit ''of''],
                 cat [One [Space], lit ''do'', WordB]]]]"

text \<open>
  The date patterns, each with its source text, which the code inspects to choose how the
  date is put together.
  \<^verbatim>\<open>day\s+of\s+([A-Za-z]+)\s+(\d{1,2})?,?\s*(\d{4})\<close>,
  \<^verbatim>\<open>(\d{1,2})[-\/.](\d{1,2})[-\/.](\d{4})\<close>,
  \<^verbatim>\<open>(\d{4})[-\/.](\d{1,2})[-\/.](\d{1,2})\<close> and
  \<^verbatim>\<open>([A-Za-z]+)\s+(\d{1,2}),?\s*(\d{4})\<close>.
\<close>

definition bsl :: char where
  "bsl = CHR 0x5C"

definition date_patterns :: "(string \<times> regex) list" where
  "date_patterns =
     [(''day'' @ bsl # ''s+of'' @ bsl # ''s+([A-Za-z]+)'' @ bsl # ''s+('' @ bsl # ''d{1,2})?,?''
         @ bsl # ''s*('' @ bsl # ''d{4})'',
       cat [lit ''day'', plus [Space], lit ''of'', plus [Space], Grp 1 (plus letters),
            plus [Space], Opt (Grp 2 (Greedy 1 (Some 2) [Digit])), maybe [Chr CHR '',''],
            star [Space], Grp 3 (Greedy 4 (Some 4) [Digit])]),
      (''('' @ bsl # ''d{1,2})[-'' @ bsl # ''/.]('' @ bsl # ''d{1,2})[-'' @ bsl # ''/.]('' @ bsl # ''d{4})'',
       cat [Grp 1 (Greedy 1 (Some 2) [Digit]), One date_sep, Grp 2 (Greedy 1 (Some 2) [Digit]),
            One date_sep, Grp 3 (Greedy 4 (Some 4) [Digit])]),
      (''('' @ bsl # ''d{4})[-'' @ bsl # ''/.]('' @ bsl # ''d{1,2})[-'' @ bsl # ''/.]('' @ bsl # ''d{1,2})'',
       cat [Grp 1 (Greedy 4 (Some 4) [Digit]), One date_sep, Grp 2 (Greedy 1 (Some 2) [Digit]),
            One date_sep, Grp 3 (Greedy 1 (Some 2) [Digit])]),
      (''([A-Za-z]+)'' @ bsl # ''s+('' @ bsl # ''d{1,2}),?'' @ bsl # ''s*('' @ bsl # ''d{4})'',
       cat [Grp 1 (plus letters), plus [Space], Grp 2 (Greedy 1 (Some 2) [Digit]),
            maybe [Chr CHR '',''], star [Space], Grp 3 (Greedy 4 (Some 4) [Digit])])]"

subsection \<open>The three loops of \<open>_extract_fields_from_text\<close>\<close>

text \<open>The license number: the first pattern that matches decides, then \<open>break\<close>.\<close>

fun license_loop :: "regex list \<Rightarrow> string \<Rightarrow> real \<Rightarrow> field_value \<Rightarrow> exn + field_value" where
  "license_loop [] text base_confidence fv = Inr fv"
| "license_loop (pattern # rest) text base_confidence fv =
     (case search pattern text of
        Some g \<Rightarrow>
          (case g 1 of
             None \<Rightarrow> Inl AttributeError
           | Some v \<Rightarrow> Inr \<lparr>val = strip v, confidence = base_confidence + 0.1\<rparr>)
      | None \<Rightarrow> license_loop rest text base_confidence fv)"

text \<open>The names: the inner loop over the matches of one pattern, and the outer loop over
  the patterns; \<open>names\<close> is the list built so far.\<close>

fun add_names :: "string list \<Rightarrow> string list \<Rightarrow> string list" where
  "add_names names [] = names"
| "add_names names (m # matches) =
     (let name = strip m
      in if length name > 2 \<and> name \<notin> set names
         then add_names (names @ [name]) matches
         else add_names names matches)"

fun collect_names :: "regex list \<Rightarrow> string \<Rightarrow> string list \<Rightarrow> string list" where
  "collect_names [] text names = names"
| "collect_names (pattern # rest) text names =
     collect_names rest text (add_names names (findall pattern text))"

text \<open>An f-string prints \<open>None\<close> as the word; \<open>zfill\<close> on \<open>None\<close> raises.\<close>

definition fmt :: "string option \<Rightarrow> string" where
  "fmt v = (case v of None \<Rightarrow> ''None'' | Some s \<Rightarrow> s)"

definition zfill2 :: "string option \<Rightarrow> exn + string" where
  "zfill2 v = (case v of None \<Rightarrow> Inl AttributeError | Some s \<Rightarrow> Inr (zfill 2 s))"

definition date_value :: "string \<Rightarrow> caps \<Rightarrow> exn + string" where
  "date_value pattern g =
     (if contains ''day of'' pattern then
        let month = g 1;
            day = (case g 2 of None \<Rightarrow> ''01'' | Some d \<Rightarrow> if d = [] then ''01'' else d);
            year = g 3
        in Inr (fmt year @ ''-'' @ fmt month @ ''-'' @ zfill 2 day)
      else if starts_with (''('' @ bsl # ''d{4})'') pattern then
        (case zfill2 (g 2) of
           Inl e \<Rightarrow> Inl e
         | Inr m \<Rightarrow>
             (case zfill2 (g 3) of
                Inl e \<Rightarrow> Inl e
              | Inr d \<Rightarrow> Inr (fmt (g 1) @ ''-'' @ m @ ''-'' @ d)))
      else
        (case zfill2 (g 1) of
           Inl e \<Rightarrow> Inl e
         | Inr m \<Rightarrow>
             (case zfill2 (g 2) of
                Inl e \<Rightarrow> Inl e
              | Inr d \<Rightarrow> Inr (fmt (g 3) @ ''-'' @ m @ ''-'' @ d))))"

fun date_loop :: "(string \<times> regex) list \<Rightarrow> string \<Rightarrow> real \<Rightarrow> field_value \<Rightarrow> exn + field_value" where
  "date_loop [] text base_confidence fv = Inr fv"
| "date_loop ((pattern, r) # rest) text base_confidence fv =
     (case search r text of
        Some g \<Rightarrow>
          (case date_value pattern g of
             Inl e \<Rightarrow> Inl e
           | Inr v \<Rightarrow> Inr \<lparr>val = v, confidence = base_confidence + 0.1\<rparr>)
      | None \<Rightarrow> date_loop rest text base_confidence fv)"

text \<open>\<open>TrOCRService._extract_fields_from_text\<close>.\<close>

definition extract_fields_from_text :: "string \<Rightarrow> real \<Rightarrow> exn + fields" where
  "extract_fields_from_text text base_confidence =
     (case license_loop license_patterns text base_confidence empty_field of
        Inl e \<Rightarrow> Inl e
      | Inr lic \<Rightarrow>
          let names = collect_names name_patterns text [];
              spouse1 = (if length names \<ge> 1
                         then \<lparr>val = names ! 0, confidence = base_confidence + 0.1\<rparr>
                         else empty_field);
              spouse2 = (if length names \<ge> 2
                         then \<lparr>val = names ! 1, confidence = base_confidence + 0.1\<rparr>
                         else empty_field)
          in (case date_loop date_patterns text base_confidence empty_field of
                Inl e \<Rightarrow> Inl e
              | Inr d \<Rightarrow>
                  Inr \<lparr>license_number = lic, name_spouse1 = spouse1,
                       name_spouse2 = spouse2, marriage_date = d\<rparr>))"

section \<open>The confidence estimator\<close>

text \<open>\<open>TrOCRService._calculate_confidence\<close>.\<close>

definition domain_keywords :: "string list" where
  "domain_keywords = [''marriage'', ''license'', ''application'', ''affidavit'']"

definition calculate_confidence :: "string \<Rightarrow> real" where
  "calculate_confidence text =
     (if text = [] \<or> length (strip text) = 0 then 0.0
      else
        let confidence = 0.5;
            confidence = (if length text > 10 then confidence + 0.1 else confidence);
            confidence = (if length text > 50 then confidence + 0.1 else confidence);
            confidence = (if list_ex (\<lambda>word. contains word (lower text)) domain_keywords
                          then confidence + 0.2 else confidence);
            confidence = (if list_ex isdigit text then confidence + 0.1 else confidence);
            confidence = (if list_ex isupper text then confidence + 0.1 else confidence);
            confidence = (if length text < 5 then confidence - 0.2 else confidence);
            confidence = (if length (remdups (split text)) < 3 \<and> length (split text) > 5
                          then confidence - 0.1 else confidence)
        in min 1.0 (max 0.0 confidence))"

section \<open>The result assembler\<close>

text \<open>
  The dictionary returned by \<open>extract_text_from_image\<close>, with the keys \<open>text\<close>,
  \<open>confidence\<close>, \<open>success\<close> and \<open>error\<close>.
\<close>

record outcome =
  o_text :: string
  o_confidence :: real
  o_success :: bool
  o_error :: "string option"

text \<open>
  What the transcription engine did, which the core does not control: the model was not
  loaded, a step raised an exception with a message, or a text was generated.
\<close>

datatype engine_run = NotLoaded | Raised string | Generated string

definition extract_text_from_image :: "engine_run \<Rightarrow> outcome" where
  "extract_text_from_image run =
     (case run of
        NotLoaded \<Rightarrow>
          \<lparr>o_text = [], o_confidence = 0.0, o_success = False,
           o_error = Some ''TrOCR model not loaded''\<rparr>
      | Raised e \<Rightarrow>
          \<lparr>o_text = [], o_confidence = 0.0, o_success = False, o_error = Some e\<rparr>
      | Generated generated_text \<Rightarrow>
          \<lparr>o_text = strip generated_text,
           o_confidence = calculate_confidence generated_text,
           o_success = True, o_error = None\<rparr>)"

text \<open>The dictionary returned by \<open>extract_marriage_license_fields\<close>: the four fields
  and the keys \<open>raw_text\<close>, \<open>success\<close> and \<open>error\<close>.\<close>

record extraction_result = fields +
  raw_text :: string
  success :: bool
  error :: "string option"

text \<open>\<open>TrOCRService.extract_marriage_license_fields\<close>, from the point where
  \<open>result\<close> has been returned by \<open>extract_text_from_image\<close>.\<close>

definition extract_marriage_license_fields :: "outcome \<Rightarrow> exn + extraction_result" where
  "extract_marriage_license_fields result =
     (if \<not> o_success result then
        Inr \<lparr>license_number = \<lparr>val = [], confidence = 0.0\<rparr>,
             name_spouse1 = \<lparr>val = [], confidence = 0.0\<rparr>,
             name_spouse2 = \<lparr>val = [], confidence = 0.0\<rparr>,
             marriage_date = \<lparr>val = [], confidence = 0.0\<rparr>,
             raw_text = o_text result, success = False, error = o_error result\<rparr>
      else
        (case extract_fields_from_text (o_text result) (o_confidence result) of
           Inl e \<Rightarrow> Inl e
         | Inr f \<Rightarrow>
             Inr \<lparr>license_number = license_number f, name_spouse1 = name_spouse1 f,
                  name_spouse2 = name_spouse2 f, marriage_date = marriage_date f,
                  raw_text = o_text result, success = True, error = None\<rparr>))"

section \<open>Properties of the confidence estimator\<close>

lemma strip_all_space: "list_all isspace s \<Longrightarrow> strip s = []"
proof -
  assume "list_all isspace s"
  then have "dropWhile isspace s = []"
    by (simp add: list_all_iff)
  then show ?thesis
    by (simp only: strip_def rev.simps dropWhile.simps)
qed

lemma clamp_unit: "0 \<le> min 1.0 (max 0.0 (x::real)) \<and> min 1.0 (max 0.0 x) \<le> 1"
  by simp

text \<open>
  Claim C3. For every input text the confidence estimator returns a value between 0.0 and
  1.0 inclusive: the sum of the bonus and penalty rules is clamped at the end.
\<close>

theorem calculate_confidence_bounds:
  "0 \<le> calculate_confidence text \<and> calculate_confidence text \<le> 1"
proof (cases "text = [] \<or> length (strip text) = 0")
  case True
  then show ?thesis
    by (simp only: calculate_confidence_def if_True) simp
next
  case False
  then show ?thesis
    by (simp only: calculate_confidence_def if_False Let_def) (rule clamp_unit)
qed

text \<open>
  Claim C8. For every input text that is empty or consists only of white space the
  estimator returns 0.0 at once; no base score and no bonus or penalty rule is applied.
  In particular this holds for the empty text and for a text of three blanks.
\<close>

theorem calculate_confidence_blank:
  "text = [] \<or> list_all isspace text \<Longrightarrow> calculate_confidence text = 0"
proof -
  assume "text = [] \<or> list_all isspace text"
  then have "text = [] \<or> length (strip text) = 0"
    using strip_all_space [of "text"] by auto
  then show ?thesis
    by (simp only: calculate_confidence_def if_True)
qed

theorem calculate_confidence_blank_witness:
  "(list_all isspace [] \<and> calculate_confidence [] = 0)
   \<and> (list_all isspace ''   '' \<and> calculate_confidence ''   '' = 0)"
proof -
  have sp: "isspace CHR '' ''"
    by (simp add: isspace_def ord_def)
  have a: "list_all isspace ''   ''"
    using sp by simp
  have "calculate_confidence [] = 0"
    using calculate_confidence_blank [of "[]"] by simp
  moreover have "calculate_confidence ''   '' = 0"
    using calculate_confidence_blank [of "''   ''"] a by blast
  ultimately show ?thesis
    using a by simp
qed

section \<open>Properties of the result assembler\<close>

text \<open>
  Claim C4. For every transcription outcome with \<open>success\<close> false, the assembled result
  has all four fields equal to the empty value with confidence 0.0, \<open>success\<close> false,
  \<open>raw_text\<close> equal to the outcome's text and \<open>error\<close> equal to the outcome's error,
  whatever the text is. The field extractor plays no part: the result is returned even
  for a text on which the extractor raises.
\<close>

theorem failure_short_circuit:
  "\<not> o_success result \<Longrightarrow>
   extract_marriage_license_fields result =
     Inr \<lparr>license_number = \<lparr>val = [], confidence = 0\<rparr>,
          name_spouse1 = \<lparr>val = [], confidence = 0\<rparr>,
          name_spouse2 = \<lparr>val = [], confidence = 0\<rparr>,
          marriage_date = \<lparr>val = [], confidence = 0\<rparr>,
          raw_text = o_text result, success = False, error = o_error result\<rparr>"
  by (simp add: extract_marriage_license_fields_def)

end
